theory Spec2Isabelle
  imports Main "HOL-Library.AList"
begin

section \<open>Python values, the object store and exceptions\<close>

text \<open>
  The program of \<^verbatim>\<open>src/main.py\<close> works on what \<^verbatim>\<open>response.json()\<close> returns:
  \<^verbatim>\<open>None\<close>, booleans, integers, strings, lists and dicts. A dict is an association
  list with the first binding of a key being the one \<^verbatim>\<open>get\<close> reads.

  The only mutation of an object in the program is \<^verbatim>\<open>channel['streams'] = ...\<close> in
  \<^verbatim>\<open>match_streams_to_channels\<close>, on an element of a fetched list. Those elements are
  shared between the list kept in \<^verbatim>\<open>cache\<close> and every list derived from it, so the
  dicts that are elements of a fetched list live in a store and are named by their
  address (\<open>PRef\<close>). Objects the program never mutates (field values, nested dicts) are
  plain values. JSON floats are outside the model.
\<close>

type_synonym addr = nat

datatype pyval =
    PNone
  | PBool bool
  | PInt int
  | PStr string
  | PList "pyval list"
  | PDict "(string \<times> pyval) list"
  | PRef addr

type_synonym pydict = "(string \<times> pyval) list"

type_synonym heap = "addr \<Rightarrow> pydict"

text \<open>
  The exception classes the program meets. The first three are classes of the
  \<^verbatim>\<open>requests\<close> library and subclasses of \<^verbatim>\<open>requests.exceptions.RequestException\<close>
  (\<^verbatim>\<open>JSONDecodeError\<close> is what \<^verbatim>\<open>response.json()\<close> raises on a body that does not
  parse, a \<^verbatim>\<open>RequestException\<close> since requests 2.27). These and the next three are
  subclasses of \<^verbatim>\<open>Exception\<close>. \<^verbatim>\<open>KeyboardInterrupt\<close> and \<^verbatim>\<open>SystemExit\<close>, which the entry
  point of the program names, are not: they derive from \<^verbatim>\<open>BaseException\<close> only.
\<close>

datatype exn =
    ConnectionError
  | HTTPError
  | JSONDecodeError
  | TypeError
  | AttributeError
  | KeyError
  | KeyboardInterrupt
  | SystemExit

fun is_RequestException :: "exn \<Rightarrow> bool" where
  "is_RequestException ConnectionError = True"
| "is_RequestException HTTPError = True"
| "is_RequestException JSONDecodeError = True"
| "is_RequestException TypeError = False"
| "is_RequestException AttributeError = False"
| "is_RequestException KeyError = False"
| "is_RequestException KeyboardInterrupt = False"
| "is_RequestException SystemExit = False"

fun is_Exception :: "exn \<Rightarrow> bool" where
  "is_Exception ConnectionError = True"
| "is_Exception HTTPError = True"
| "is_Exception JSONDecodeError = True"
| "is_Exception TypeError = True"
| "is_Exception AttributeError = True"
| "is_Exception KeyError = True"
| "is_Exception KeyboardInterrupt = False"
| "is_Exception SystemExit = False"

text \<open>
  Python's \<^verbatim>\<open>==\<close> on these values: \<^verbatim>\<open>True == 1\<close>, lists compare elementwise, dicts
  compare as mappings whatever the order of their keys. Two references are compared by
  address; the program compares only the \<^verbatim>\<open>id\<close> and \<^verbatim>\<open>channel\<close> fields of records and
  the members of the policy lists, none of which holds a reference.
\<close>

fun py_eq :: "pyval \<Rightarrow> pyval \<Rightarrow> bool" where
  "py_eq PNone PNone = True"
| "py_eq (PBool a) (PBool b) = (a = b)"
| "py_eq (PBool a) (PInt n) = ((if a then 1 else 0) = n)"
| "py_eq (PInt m) (PBool b) = (m = (if b then 1 else 0))"
| "py_eq (PInt m) (PInt n) = (m = n)"
| "py_eq (PStr s) (PStr t) = (s = t)"
| "py_eq (PList xs) (PList ys) = list_all2 py_eq xs ys"
| "py_eq (PDict xs) (PDict ys) =
     (length xs = length ys \<and>
      (\<forall>(k, v) \<in> set xs. case map_of ys k of None \<Rightarrow> False | Some w \<Rightarrow> py_eq v w))"
| "py_eq (PRef a) (PRef b) = (a = b)"
| "py_eq _ _ = False"

text \<open>\<^verbatim>\<open>x in xs\<close> for a list \<open>xs\<close> of strings, as the three policy lists are.\<close>

definition py_in :: "pyval \<Rightarrow> string list \<Rightarrow> bool" where
  "py_in x xs = list_ex (\<lambda>s. py_eq (PStr s) x) xs"

text \<open>Truth value of an object, as \<^verbatim>\<open>if not channels\<close> and \<^verbatim>\<open>if channel_streams\<close> read it.\<close>

fun py_truthy :: "heap \<Rightarrow> pyval \<Rightarrow> bool" where
  "py_truthy h PNone = False"
| "py_truthy h (PBool b) = b"
| "py_truthy h (PInt n) = (n \<noteq> 0)"
| "py_truthy h (PStr s) = (s \<noteq> [])"
| "py_truthy h (PList xs) = (xs \<noteq> [])"
| "py_truthy h (PDict kvs) = (kvs \<noteq> [])"
| "py_truthy h (PRef a) = (h a \<noteq> [])"

text \<open>\<^verbatim>\<open>len(x)\<close>: a \<^verbatim>\<open>TypeError\<close> on \<^verbatim>\<open>None\<close>, booleans and integers.\<close>

fun py_len :: "heap \<Rightarrow> pyval \<Rightarrow> exn + nat" where
  "py_len h (PStr s) = Inr (length s)"
| "py_len h (PList xs) = Inr (length xs)"
| "py_len h (PDict kvs) = Inr (length kvs)"
| "py_len h (PRef a) = Inr (length (h a))"
| "py_len h _ = Inl TypeError"

text \<open>
  \<^verbatim>\<open>for x in obj\<close>: the elements of a list, the characters of a string, the keys of a
  dict; a \<^verbatim>\<open>TypeError\<close> on \<^verbatim>\<open>None\<close>, booleans and integers.
\<close>

fun py_iter :: "heap \<Rightarrow> pyval \<Rightarrow> exn + pyval list" where
  "py_iter h (PStr s) = Inr (map (\<lambda>c. PStr [c]) s)"
| "py_iter h (PList xs) = Inr xs"
| "py_iter h (PDict kvs) = Inr (map (\<lambda>(k, v). PStr k) kvs)"
| "py_iter h (PRef a) = Inr (map (\<lambda>(k, v). PStr k) (h a))"
| "py_iter h _ = Inl TypeError"

text \<open>
  \<^verbatim>\<open>obj[:5]\<close>, as the list of what a loop over the slice visits. Slicing a dict raises
  (\<^verbatim>\<open>TypeError\<close> up to Python 3.11), as does slicing \<^verbatim>\<open>None\<close> or a number.
\<close>

fun py_first5 :: "heap \<Rightarrow> pyval \<Rightarrow> exn + pyval list" where
  "py_first5 h (PStr s) = Inr (map (\<lambda>c. PStr [c]) (take 5 s))"
| "py_first5 h (PList xs) = Inr (take 5 xs)"
| "py_first5 h _ = Inl TypeError"

text \<open>\<^verbatim>\<open>obj.get(key, default)\<close>: only a dict has the method.\<close>

fun py_get :: "heap \<Rightarrow> pyval \<Rightarrow> string \<Rightarrow> pyval \<Rightarrow> exn + pyval" where
  "py_get h (PDict kvs) k d = Inr (case map_of kvs k of None \<Rightarrow> d | Some v \<Rightarrow> v)"
| "py_get h (PRef a) k d = Inr (case map_of (h a) k of None \<Rightarrow> d | Some v \<Rightarrow> v)"
| "py_get h _ k d = Inl AttributeError"

text \<open>
  \<^verbatim>\<open>obj[key] = v\<close> for a string key. On a stored dict the store changes and every holder of
  the reference sees it; a dict held by value belongs to its holder alone, and the
  updated dict is handed back. Anything else raises \<^verbatim>\<open>TypeError\<close>.
\<close>

fun py_setitem :: "heap \<Rightarrow> pyval \<Rightarrow> string \<Rightarrow> pyval \<Rightarrow> exn + (pyval \<times> heap)" where
  "py_setitem h (PRef a) k v = Inr (PRef a, h(a := AList.update k v (h a)))"
| "py_setitem h (PDict kvs) k v = Inr (PDict (AList.update k v kvs), h)"
| "py_setitem h _ k v = Inl TypeError"

section \<open>The cache and \<^verbatim>\<open>fetch_with_cache\<close>\<close>

text \<open>
  The module state: the two dicts \<^verbatim>\<open>cache\<close> and \<^verbatim>\<open>cache_expiry\<close>, and the store of
  record objects with its next free address. A \<^verbatim>\<open>datetime\<close> is a number of microseconds.
\<close>

record state =
  cache :: "string \<rightharpoonup> pyval"
  cache_expiry :: "string \<rightharpoonup> int"
  heap :: heap
  next_addr :: addr

definition init_state :: state where
  "init_state = \<lparr>cache = Map.empty, cache_expiry = Map.empty, heap = (\<lambda>_. []), next_addr = 0\<rparr>"

definition IPTV_CHANNELS_URL :: string where
  "IPTV_CHANNELS_URL = ''https://iptv-org.github.io/api/channels.json''"

definition IPTV_STREAMS_URL :: string where
  "IPTV_STREAMS_URL = ''https://iptv-org.github.io/api/streams.json''"

definition CACHE_TTL :: int where
  "CACHE_TTL = 600"

definition timedelta_seconds :: "int \<Rightarrow> int" where
  "timedelta_seconds s = s * 1000000"

text \<open>
  What the three calls \<^verbatim>\<open>requests.get(url)\<close>, \<^verbatim>\<open>raise_for_status()\<close> and
  \<^verbatim>\<open>response.json()\<close> do together is the environment's choice: they hand over a
  decoded body or raise; an interrupt that arrives during the call is raised from it.
\<close>

datatype http = Responds pyval | Raises exn

text \<open>
  The observable events: the network access and the lines the program prints about
  fetching and refreshing. (The diagnostic prints of the filter are left out.)
\<close>

datatype event =
    ServingCached string
  | FetchingFresh string
  | HttpGet string
  | Fetched nat string
  | ErrorFetching string exn
  | NoChannelsFetched
  | NoStreamsFetched
  | RefreshFetched nat
  | RefreshNoChannels
  | RefreshError exn

text \<open>
  A decoded body is a tree of fresh objects. The dicts that are elements of a decoded
  list are put into the store, in order.
\<close>

fun alloc_records :: "pyval list \<Rightarrow> heap \<Rightarrow> addr \<Rightarrow> pyval list \<times> heap \<times> addr" where
  "alloc_records [] h n = ([], h, n)"
| "alloc_records (PDict kvs # xs) h n =
     (case alloc_records xs (h(n := kvs)) (Suc n) of
        (ys, h', n') \<Rightarrow> (PRef n # ys, h', n'))"
| "alloc_records (x # xs) h n =
     (case alloc_records xs h n of (ys, h', n') \<Rightarrow> (x # ys, h', n'))"

fun response_json :: "pyval \<Rightarrow> heap \<Rightarrow> addr \<Rightarrow> pyval \<times> heap \<times> addr" where
  "response_json (PList xs) h n =
     (case alloc_records xs h n of (ys, h', n') \<Rightarrow> (PList ys, h', n'))"
| "response_json v h n = (v, h, n)"

text \<open>
  The body of the \<^verbatim>\<open>try\<close> block (lines 36 to 42): the two maps are written before
  \<^verbatim>\<open>len(data)\<close> is printed, so a body that has no length is cached and then raises
  \<^verbatim>\<open>TypeError\<close>.
\<close>

definition try_fetch :: "state \<Rightarrow> int \<Rightarrow> string \<Rightarrow> http \<Rightarrow> (exn + pyval) \<times> state \<times> event list" where
  "try_fetch st now url out =
     (case out of
        Raises e \<Rightarrow> (Inl e, st, [])
      | Responds body \<Rightarrow>
          (case response_json body (heap st) (next_addr st) of
             (data, h', n') \<Rightarrow>
               (let st' = st\<lparr>cache := (cache st)(url \<mapsto> data),
                             cache_expiry := (cache_expiry st)(url \<mapsto> now + timedelta_seconds CACHE_TTL),
                             heap := h', next_addr := n'\<rparr>
                in case py_len h' data of
                     Inl e \<Rightarrow> (Inl e, st', [])
                   | Inr k \<Rightarrow> (Inr data, st', [Fetched k url]))))"

text \<open>
  \<^verbatim>\<open>except requests.exceptions.RequestException\<close> around it: only those exceptions are
  answered with \<^verbatim>\<open>cache.get(url, None)\<close>, any other propagates.
\<close>

definition fetch_fresh :: "state \<Rightarrow> int \<Rightarrow> string \<Rightarrow> http \<Rightarrow> (exn + pyval) \<times> state \<times> event list" where
  "fetch_fresh st now url out =
     (case try_fetch st now url out of
        (Inr data, st', tr) \<Rightarrow> (Inr data, st', [FetchingFresh url, HttpGet url] @ tr)
      | (Inl e, st', tr) \<Rightarrow>
          if is_RequestException e
          then (Inr (case cache st' url of None \<Rightarrow> PNone | Some d \<Rightarrow> d), st',
                [FetchingFresh url, HttpGet url] @ tr @ [ErrorFetching url e])
          else (Inl e, st', [FetchingFresh url, HttpGet url] @ tr))"

text \<open>
  \<^verbatim>\<open>fetch_with_cache(url)\<close>, with the value of \<^verbatim>\<open>datetime.utcnow()\<close> and the network's
  answer as arguments. \<^verbatim>\<open>cache_expiry[url]\<close> is read only when \<^verbatim>\<open>url in cache\<close>, and
  raises \<^verbatim>\<open>KeyError\<close> when the key is missing there.
\<close>

definition fetch_with_cache :: "state \<Rightarrow> int \<Rightarrow> string \<Rightarrow> http \<Rightarrow> (exn + pyval) \<times> state \<times> event list" where
  "fetch_with_cache st now url out =
     (case cache st url of
        None \<Rightarrow> fetch_fresh st now url out
      | Some d \<Rightarrow>
          (case cache_expiry st url of
             None \<Rightarrow> (Inl KeyError, st, [])
           | Some e \<Rightarrow>
               if e > now then (Inr d, st, [ServingCached url])
               else fetch_fresh st now url out))"

section \<open>The channel filter\<close>

text \<open>
  The three module constants of the filter are the fields of a policy, so that the
  functions can be read at any policy; \<open>source_policy\<close> is the one of the source.
\<close>

record policy =
  INCLUDED_COUNTRIES :: "string list"
  INCLUDED_LANGUAGES :: "string list"
  EXCLUDED_CATEGORIES :: "string list"

definition source_policy :: policy where
  "source_policy =
     \<lparr>INCLUDED_COUNTRIES = [],
      INCLUDED_LANGUAGES = [''fars'', ''spa'', ''ron'', ''rus'', ''fra'', ''deu'', ''eng''],
      EXCLUDED_CATEGORIES = []\<rparr>"

text \<open>
  The sample print (lines 54 and 55, again at 106 and 107) formats four fields of each of
  the first five channels; it raises \<^verbatim>\<open>AttributeError\<close> on an element that is no dict.
\<close>

definition print_channel :: "heap \<Rightarrow> pyval \<Rightarrow> exn + unit" where
  "print_channel h channel =
     (case py_get h channel ''name'' (PStr ''Unknown'') of Inl e \<Rightarrow> Inl e | Inr _ \<Rightarrow>
      case py_get h channel ''country'' PNone of Inl e \<Rightarrow> Inl e | Inr _ \<Rightarrow>
      case py_get h channel ''languages'' PNone of Inl e \<Rightarrow> Inl e | Inr _ \<Rightarrow>
      case py_get h channel ''categories'' PNone of Inl e \<Rightarrow> Inl e | Inr _ \<Rightarrow> Inr ())"

fun print_each :: "heap \<Rightarrow> pyval list \<Rightarrow> exn + unit" where
  "print_each h [] = Inr ()"
| "print_each h (channel # cs) =
     (case print_channel h channel of Inl e \<Rightarrow> Inl e | Inr _ \<Rightarrow> print_each h cs)"

definition print_sample :: "heap \<Rightarrow> pyval \<Rightarrow> exn + unit" where
  "print_sample h channels =
     (case py_first5 h channels of Inl e \<Rightarrow> Inl e | Inr cs \<Rightarrow> print_each h cs)"

text \<open>
  The body of the main loop (lines 59 to 69): the three reads with their defaults, the
  three matches in the order of the source, and whether the channel is appended.
\<close>

definition channel_matches :: "policy \<Rightarrow> heap \<Rightarrow> pyval \<Rightarrow> exn + bool" where
  "channel_matches pol h channel =
     (case py_get h channel ''country'' (PStr []) of Inl e \<Rightarrow> Inl e | Inr country \<Rightarrow>
      case py_get h channel ''languages'' (PList []) of Inl e \<Rightarrow> Inl e | Inr languages \<Rightarrow>
      case py_get h channel ''categories'' (PList []) of Inl e \<Rightarrow> Inl e | Inr categories \<Rightarrow>
        (let country_match =
               (if INCLUDED_COUNTRIES pol \<noteq> [] then py_in country (INCLUDED_COUNTRIES pol)
                else True)
         in case py_iter h languages of Inl e \<Rightarrow> Inl e | Inr langs \<Rightarrow>
           (let language_match = list_ex (\<lambda>lang. py_in lang (INCLUDED_LANGUAGES pol)) langs
            in case py_iter h categories of Inl e \<Rightarrow> Inl e | Inr cats \<Rightarrow>
              (let category_match = \<not> list_ex (\<lambda>cat. py_in cat (EXCLUDED_CATEGORIES pol)) cats
               in Inr (country_match \<and> language_match \<and> category_match)))))"

fun filter_loop :: "policy \<Rightarrow> heap \<Rightarrow> pyval list \<Rightarrow> pyval list \<Rightarrow> exn + pyval list" where
  "filter_loop pol h [] filtered = Inr filtered"
| "filter_loop pol h (channel # cs) filtered =
     (case channel_matches pol h channel of
        Inl e \<Rightarrow> Inl e
      | Inr ok \<Rightarrow> filter_loop pol h cs (if ok then filtered @ [channel] else filtered))"

definition filter_channels :: "policy \<Rightarrow> heap \<Rightarrow> pyval \<Rightarrow> exn + pyval list" where
  "filter_channels pol h channels =
     (case py_len h channels of Inl e \<Rightarrow> Inl e | Inr _ \<Rightarrow>
      case print_sample h channels of Inl e \<Rightarrow> Inl e | Inr _ \<Rightarrow>
      case py_iter h channels of Inl e \<Rightarrow> Inl e | Inr cs \<Rightarrow> filter_loop pol h cs [])"

section \<open>The stream joiner\<close>

text \<open>
  The list comprehension of line 84, for one channel: for each stream in turn
  \<^verbatim>\<open>stream.get('channel')\<close>, then \<^verbatim>\<open>channel.get('id')\<close>, then the comparison.
\<close>

fun collect_streams :: "heap \<Rightarrow> pyval \<Rightarrow> pyval list \<Rightarrow> exn + pyval list" where
  "collect_streams h channel [] = Inr []"
| "collect_streams h channel (stream # ss) =
     (case py_get h stream ''channel'' PNone of Inl e \<Rightarrow> Inl e | Inr fk \<Rightarrow>
      case py_get h channel ''id'' PNone of Inl e \<Rightarrow> Inl e | Inr cid \<Rightarrow>
      case collect_streams h channel ss of Inl e \<Rightarrow> Inl e | Inr rest \<Rightarrow>
        Inr (if py_eq fk cid then stream # rest else rest))"

text \<open>
  The loop of lines 83 to 86. It writes into the channel objects; an exception leaves
  the writes made so far in the store. The result lists the channels as they are after
  the loop (for stored channels, the same references).
\<close>

fun match_loop :: "heap \<Rightarrow> pyval list \<Rightarrow> pyval \<Rightarrow> (exn + pyval list) \<times> heap" where
  "match_loop h [] streams = (Inr [], h)"
| "match_loop h (channel # cs) streams =
     (case py_iter h streams of Inl e \<Rightarrow> (Inl e, h) | Inr ss \<Rightarrow>
      case collect_streams h channel ss of Inl e \<Rightarrow> (Inl e, h) | Inr channel_streams \<Rightarrow>
        if channel_streams \<noteq> []
        then (case py_setitem h channel ''streams'' (PList channel_streams) of
                Inl e \<Rightarrow> (Inl e, h)
              | Inr (channel', h') \<Rightarrow>
                  (case match_loop h' cs streams of
                     (Inl e, h'') \<Rightarrow> (Inl e, h'')
                   | (Inr cs', h'') \<Rightarrow> (Inr (channel' # cs'), h'')))
        else (case match_loop h cs streams of
                (Inl e, h'') \<Rightarrow> (Inl e, h'')
              | (Inr cs', h'') \<Rightarrow> (Inr (channel # cs'), h'')))"

definition match_streams_to_channels :: "heap \<Rightarrow> pyval list \<Rightarrow> pyval \<Rightarrow> (exn + pyval list) \<times> heap" where
  "match_streams_to_channels h channels streams = match_loop h channels streams"

section \<open>The refresh pipeline and the scheduled task\<close>

text \<open>
  \<^verbatim>\<open>fetch_channels()\<close>. The environment gives, for each URL, the clock value read by the
  call of \<^verbatim>\<open>fetch_with_cache\<close> for it and the network's answer, should it be asked.
\<close>

type_synonym env = "string \<Rightarrow> int \<times> http"

definition fetch_channels :: "policy \<Rightarrow> state \<Rightarrow> env \<Rightarrow> (exn + pyval list) \<times> state \<times> event list" where
  "fetch_channels pol st env =
     (case fetch_with_cache st (fst (env IPTV_CHANNELS_URL)) IPTV_CHANNELS_URL
             (snd (env IPTV_CHANNELS_URL)) of
        (Inl e, st1, tr1) \<Rightarrow> (Inl e, st1, tr1)
      | (Inr channels, st1, tr1) \<Rightarrow>
          if \<not> py_truthy (heap st1) channels then (Inr [], st1, tr1 @ [NoChannelsFetched])
          else
            (case fetch_with_cache st1 (fst (env IPTV_STREAMS_URL)) IPTV_STREAMS_URL
                    (snd (env IPTV_STREAMS_URL)) of
               (Inl e, st2, tr2) \<Rightarrow> (Inl e, st2, tr1 @ tr2)
             | (Inr streams, st2, tr2) \<Rightarrow>
                 if \<not> py_truthy (heap st2) streams
                 then (Inr [], st2, tr1 @ tr2 @ [NoStreamsFetched])
                 else
                   (case filter_channels pol (heap st2) channels of
                      Inl e \<Rightarrow> (Inl e, st2, tr1 @ tr2)
                    | Inr filtered_channels \<Rightarrow>
                        (case (if filtered_channels = [] then print_sample (heap st2) channels
                               else Inr ()) of
                           Inl e \<Rightarrow> (Inl e, st2, tr1 @ tr2)
                         | Inr _ \<Rightarrow>
                             (case match_streams_to_channels (heap st2) filtered_channels streams of
                                (r, h') \<Rightarrow> (r, st2\<lparr>heap := h'\<rparr>, tr1 @ tr2))))))"

text \<open>
  \<^verbatim>\<open>refresh_data()\<close>: the job the scheduler runs. \<^verbatim>\<open>except Exception\<close> answers every
  exception of that class with a printed line; the function then returns \<^verbatim>\<open>None\<close>.
\<close>

definition refresh_data :: "policy \<Rightarrow> state \<Rightarrow> env \<Rightarrow> (exn + unit) \<times> state \<times> event list" where
  "refresh_data pol st env =
     (case fetch_channels pol st env of
        (Inr channels, st', tr) \<Rightarrow>
          (Inr (), st', tr @ [if channels \<noteq> [] then RefreshFetched (length channels)
                              else RefreshNoChannels])
      | (Inl e, st', tr) \<Rightarrow>
          if is_Exception e then (Inr (), st', tr @ [RefreshError e])
          else (Inl e, st', tr))"

text \<open>The states the module reaches from its start by calls of \<^verbatim>\<open>fetch_with_cache\<close>.\<close>

inductive reachable :: "state \<Rightarrow> bool" where
  reachable_init: "reachable init_state"
| reachable_fetch:
    "reachable st \<Longrightarrow> fetch_with_cache st now url out = (r, st', tr) \<Longrightarrow> reachable st'"

section \<open>Notions used to state the properties\<close>

text \<open>The URL an event is about, if any.\<close>

fun event_url :: "event \<Rightarrow> string option" where
  "event_url (ServingCached u) = Some u"
| "event_url (FetchingFresh u) = Some u"
| "event_url (HttpGet u) = Some u"
| "event_url (Fetched k u) = Some u"
| "event_url (ErrorFetching u e) = Some u"
| "event_url _ = None"

text \<open>\<^verbatim>\<open>key in obj\<close> for a dict.\<close>

fun has_key :: "heap \<Rightarrow> pyval \<Rightarrow> string \<Rightarrow> bool" where
  "has_key h (PDict kvs) k = (map_of kvs k \<noteq> None)"
| "has_key h (PRef a) k = (map_of (h a) k \<noteq> None)"
| "has_key h _ k = False"

text \<open>An object with the method \<^verbatim>\<open>get\<close>, and the value of a field of it (\<^verbatim>\<open>None\<close> if absent).\<close>

fun is_dict :: "pyval \<Rightarrow> bool" where
  "is_dict (PDict kvs) = True"
| "is_dict (PRef a) = True"
| "is_dict _ = False"

definition field_of :: "heap \<Rightarrow> pyval \<Rightarrow> string \<Rightarrow> pyval" where
  "field_of h c k = (case py_get h c k PNone of Inr v \<Rightarrow> v | Inl _ \<Rightarrow> PNone)"





text \<open>
  A channel record in the sense of the data model: a dict whose \<^verbatim>\<open>languages\<close> and
  \<^verbatim>\<open>categories\<close>, where present, are lists. Its country, languages and categories are
  read the way the filter reads them, an absent field by its default.
\<close>

definition channel_record :: "heap \<Rightarrow> pyval \<Rightarrow> bool" where
  "channel_record h c =
     (case py_get h c ''languages'' (PList []) of
        Inr (PList _) \<Rightarrow>
          (case py_get h c ''categories'' (PList []) of Inr (PList _) \<Rightarrow> True | _ \<Rightarrow> False)
      | _ \<Rightarrow> False)"

definition country_of :: "heap \<Rightarrow> pyval \<Rightarrow> pyval" where
  "country_of h c = (case py_get h c ''country'' (PStr []) of Inr v \<Rightarrow> v | Inl _ \<Rightarrow> PStr [])"

definition languages_of :: "heap \<Rightarrow> pyval \<Rightarrow> pyval list" where
  "languages_of h c =
     (case py_get h c ''languages'' (PList []) of Inr (PList xs) \<Rightarrow> xs | _ \<Rightarrow> [])"

definition categories_of :: "heap \<Rightarrow> pyval \<Rightarrow> pyval list" where
  "categories_of h c =
     (case py_get h c ''categories'' (PList []) of Inr (PList xs) \<Rightarrow> xs | _ \<Rightarrow> [])"

text \<open>
  The filter condition in the words of the specification: no country restriction or the
  country is one of the included ones, some language is included, no category is
  excluded.
\<close>

definition spec_includes :: "policy \<Rightarrow> heap \<Rightarrow> pyval \<Rightarrow> bool" where
  "spec_includes pol h c \<longleftrightarrow>
     (INCLUDED_COUNTRIES pol = [] \<or> country_of h c \<in> PStr ` set (INCLUDED_COUNTRIES pol)) \<and>
     set (languages_of h c) \<inter> PStr ` set (INCLUDED_LANGUAGES pol) \<noteq> {} \<and>
     set (categories_of h c) \<inter> PStr ` set (EXCLUDED_CATEGORIES pol) = {}"

text \<open>Every key of \<^verbatim>\<open>cache\<close> is a key of \<^verbatim>\<open>cache_expiry\<close>.\<close>

definition cache_inv :: "state \<Rightarrow> bool" where
  "cache_inv st \<longleftrightarrow> dom (cache st) \<subseteq> dom (cache_expiry st)"

section \<open>Concrete runs\<close>

text \<open>
  The records of the specification's end-to-end scenarios: two channels, of which only
  \<^verbatim>\<open>ch1\<close> has an included language, and two streams, of which only the first belongs to
  \<^verbatim>\<open>ch1\<close>.
\<close>

definition ch1 :: pydict where
  "ch1 = [(''id'', PStr ''ch1''), (''languages'', PList [PStr ''eng'']),
          (''categories'', PList []), (''country'', PStr ''US'')]"

definition ch2 :: pydict where
  "ch2 = [(''id'', PStr ''ch2''), (''languages'', PList [PStr ''jpn''])]"

definition stream_a :: pydict where
  "stream_a = [(''channel'', PStr ''ch1''), (''url'', PStr ''http://a'')]"

definition stream_b :: pydict where
  "stream_b = [(''channel'', PStr ''ch3''), (''url'', PStr ''http://b'')]"

definition two_channels :: heap where
  "two_channels = (\<lambda>_. [])(0 := ch1, 1 := ch2)"

text \<open>
  The state after the channels were fetched at time 0 and the streams one microsecond
  later, by two calls of \<^verbatim>\<open>fetch_with_cache\<close> from the start.
\<close>

definition state_channels :: state where
  "state_channels =
     fst (snd (fetch_with_cache init_state 0 IPTV_CHANNELS_URL
                 (Responds (PList [PDict ch1, PDict ch2]))))"

definition state_fetched :: state where
  "state_fetched =
     fst (snd (fetch_with_cache state_channels 1 IPTV_STREAMS_URL
                 (Responds (PList [PDict stream_a, PDict stream_b]))))"

text \<open>An environment whose network is down, read two seconds after the start.\<close>

definition env_down :: env where
  "env_down = (\<lambda>u. (2000000, Raises ConnectionError))"

text \<open>
  Two runs of the pipeline from the start. In the first both fetches succeed. The second
  comes 700 seconds later, when both entries have expired: the channel fetch fails with
  an HTTP error, the stream fetch succeeds, and the new stream list has no stream of
  \<^verbatim>\<open>ch1\<close> any more.
\<close>

definition env_first :: env where
  "env_first = (\<lambda>u. if u = IPTV_CHANNELS_URL
                     then (0, Responds (PList [PDict ch1, PDict ch2]))
                     else (1, Responds (PList [PDict stream_a, PDict stream_b])))"

definition env_second :: env where
  "env_second = (\<lambda>u. if u = IPTV_CHANNELS_URL
                      then (700000000, Raises HTTPError)
                      else (700000001, Responds (PList [PDict stream_b])))"

definition state_after_first :: state where
  "state_after_first = fst (snd (fetch_channels source_policy init_state env_first))"

definition state_after_second :: state where
  "state_after_second = fst (snd (fetch_channels source_policy state_after_first env_second))"

text \<open>The state after an upstream that answered with the empty list at time 0.\<close>

definition state_empty_entry :: state where
  "state_empty_entry =
     fst (snd (fetch_with_cache init_state 0 IPTV_CHANNELS_URL (Responds (PList []))))"

text \<open>A policy with one included country, and a channel with no country.\<close>

definition policy_us :: policy where
  "policy_us =
     \<lparr>INCLUDED_COUNTRIES = [''US''], INCLUDED_LANGUAGES = [''eng''], EXCLUDED_CATEGORIES = []\<rparr>"

definition no_country :: heap where
  "no_country = (\<lambda>_. [])(0 := [(''id'', PStr ''ch4''), (''languages'', PList [PStr ''eng''])])"

text \<open>
  An environment in which the channel fetch succeeds and the stream fetch fails, and one
  whose upstream answers both requests with the JSON value \<^verbatim>\<open>null\<close>.
\<close>

definition env_streams_down :: env where
  "env_streams_down = (\<lambda>u. if u = IPTV_CHANNELS_URL
                            then (0, Responds (PList [PDict ch1, PDict ch2]))
                            else (1, Raises ConnectionError))"

definition env_null :: env where
  "env_null = (\<lambda>u. (0, Responds PNone))"

text \<open>The state after a pipeline run on \<open>state_fetched\<close>, both entries being fresh.\<close>

definition state_joined :: state where
  "state_joined = fst (snd (fetch_channels source_policy state_fetched env_down))"

section \<open>Evaluation of the concrete runs\<close>

lemmas scenario_defs =
  ch1_def ch2_def stream_a_def stream_b_def two_channels_def state_channels_def
  state_fetched_def env_down_def env_first_def env_second_def state_after_first_def
  state_after_second_def state_empty_entry_def policy_us_def
  no_country_def env_streams_down_def env_null_def state_joined_def init_state_def
  source_policy_def
  IPTV_CHANNELS_URL_def IPTV_STREAMS_URL_def CACHE_TTL_def timedelta_seconds_def

lemmas program_defs =
  fetch_with_cache_def fetch_fresh_def try_fetch_def fetch_channels_def filter_channels_def
  print_sample_def print_channel_def channel_matches_def match_streams_to_channels_def
  py_in_def refresh_data_def Let_def

lemma triple_collapse: "t = (fst t, fst (snd t), snd (snd t))"
  by simp

lemma state_channels_reachable: "reachable state_channels"
  unfolding state_channels_def
  by (rule reachable_fetch[OF reachable_init]) (rule triple_collapse)

lemma state_fetched_reachable: "reachable state_fetched"
  unfolding state_fetched_def
  by (rule reachable_fetch[OF state_channels_reachable]) (rule triple_collapse)

lemma state_empty_entry_reachable: "reachable state_empty_entry"
  unfolding state_empty_entry_def
  by (rule reachable_fetch[OF reachable_init]) (rule triple_collapse)

lemma state_fetched_cache:
  "cache state_fetched IPTV_CHANNELS_URL = Some (PList [PRef 0, PRef 1])"
  "cache_expiry state_fetched IPTV_CHANNELS_URL = Some 600000000"
  "cache state_fetched IPTV_STREAMS_URL = Some (PList [PRef 2, PRef 3])"
  "cache_expiry state_fetched IPTV_STREAMS_URL = Some 600000001"
  "next_addr state_fetched = 4"
  by (simp_all add: scenario_defs program_defs)


section \<open>Properties of the fetch cache\<close>







text \<open>
  C2, as amended. When the fetch for a URL raises an exception of the class
  \<^verbatim>\<open>RequestException\<close> (a transport failure, an HTTP error status, or a body that does not
  parse) and an entry for the URL exists that is not fresh, \<^verbatim>\<open>fetch_with_cache\<close> returns
  exactly the payload of that entry, which is empty only when that payload is; it returns
  normally, changes nothing in the state, and its last event is the printed error line.
\<close>

theorem stale_fallback:
  assumes "cache st url = Some d" and "cache_expiry st url = Some e" and "e \<le> now"
    and "is_RequestException ex"
  shows "fetch_with_cache st now url (Raises ex) =
           (Inr d, st, [FetchingFresh url, HttpGet url, ErrorFetching url ex])"
  using assms by (simp add: fetch_with_cache_def fetch_fresh_def try_fetch_def)

theorem stale_fallback_witness:
  "cache state_fetched IPTV_CHANNELS_URL = Some (PList [PRef 0, PRef 1]) \<and>
   cache_expiry state_fetched IPTV_CHANNELS_URL = Some 600000000 \<and>
   is_RequestException JSONDecodeError \<and>
   fetch_with_cache state_fetched 700000000 IPTV_CHANNELS_URL (Raises JSONDecodeError) =
     (Inr (PList [PRef 0, PRef 1]), state_fetched,
      [FetchingFresh IPTV_CHANNELS_URL, HttpGet IPTV_CHANNELS_URL,
       ErrorFetching IPTV_CHANNELS_URL JSONDecodeError])"
proof -
  have le: "(600000000::int) \<le> 700000000" by simp
  have rq: "is_RequestException JSONDecodeError" by simp
  from stale_fallback[OF state_fetched_cache(1) state_fetched_cache(2) le rq]
    state_fetched_cache(1,2) rq
  show ?thesis by simp
qed

text \<open>
  The claim C2 as stated also says that the result is never empty. An upstream that
  answered with the empty list leaves an entry whose payload is empty, and the fallback
  returns that empty list.
\<close>

theorem stale_fallback_empty_entry:
  "cache state_empty_entry IPTV_CHANNELS_URL = Some (PList []) \<and>
   cache_expiry state_empty_entry IPTV_CHANNELS_URL = Some 600000000 \<and>
   fst (fetch_with_cache state_empty_entry 700000000 IPTV_CHANNELS_URL (Raises ConnectionError)) =
     Inr (PList []) \<and>
   \<not> py_truthy (heap state_empty_entry) (PList [])"
  by (simp add: scenario_defs program_defs)

text \<open>
  C3, as amended. When the fetch for a URL raises a \<^verbatim>\<open>RequestException\<close> and no entry for
  the URL exists, \<^verbatim>\<open>fetch_with_cache\<close> returns \<^verbatim>\<open>None\<close> (no sequence at all; the pipeline
  treats it as empty because it is false as a truth value), after printing the error
  line, and leaves the state unchanged.
\<close>

theorem cold_miss:
  assumes "cache st url = None" and "is_RequestException ex"
  shows "fetch_with_cache st now url (Raises ex) =
           (Inr PNone, st, [FetchingFresh url, HttpGet url, ErrorFetching url ex]) \<and>
         \<not> py_truthy (heap st) PNone"
  using assms by (simp add: fetch_with_cache_def fetch_fresh_def try_fetch_def)

theorem cold_miss_witness:
  "cache init_state IPTV_CHANNELS_URL = None \<and> is_RequestException ConnectionError \<and>
   fetch_with_cache init_state 0 IPTV_CHANNELS_URL (Raises ConnectionError) =
     (Inr PNone, init_state,
      [FetchingFresh IPTV_CHANNELS_URL, HttpGet IPTV_CHANNELS_URL,
       ErrorFetching IPTV_CHANNELS_URL ConnectionError])"
proof -
  have n: "cache init_state IPTV_CHANNELS_URL = None" by (simp add: init_state_def)
  have rq: "is_RequestException ConnectionError" by simp
  from cold_miss[OF n rq, of 0] n rq show ?thesis by simp
qed

text \<open>
  The claim C3 as stated has the result be an empty sequence of records. The result is
  \<^verbatim>\<open>None\<close>, which is not the empty list, and \<^verbatim>\<open>len\<close> of it raises.
\<close>

theorem cold_miss_returns_None:
  "fst (fetch_with_cache init_state 0 IPTV_CHANNELS_URL (Raises ConnectionError)) = Inr PNone \<and>
   fst (fetch_with_cache init_state 0 IPTV_CHANNELS_URL (Raises ConnectionError)) \<noteq> Inr (PList []) \<and>
   py_len (heap init_state) PNone = Inl TypeError"
  by (simp add: scenario_defs program_defs)

subsection \<open>The two maps have the same keys\<close>

lemma try_fetch_maps:
  assumes "try_fetch st now url out = (r, st', tr)"
  shows "st' = st \<or>
         (\<exists>d. cache st' = (cache st)(url \<mapsto> d) \<and>
              cache_expiry st' = (cache_expiry st)(url \<mapsto> now + timedelta_seconds CACHE_TTL))"
  using assms
  by (auto simp: try_fetch_def Let_def split: http.splits prod.splits sum.splits)

lemma try_fetch_inv:
  assumes "cache_inv st" and "try_fetch st now url out = (r, st', tr)"
  shows "cache_inv st'"
  using try_fetch_maps[OF assms(2)] assms(1) unfolding cache_inv_def
  by (auto simp: subset_iff dom_def)

lemma fetch_fresh_state:
  assumes "fetch_fresh st now url out = (r, st', tr)"
  shows "\<exists>r0 tr0. try_fetch st now url out = (r0, st', tr0)"
  using assms by (auto simp: fetch_fresh_def split: prod.splits sum.splits if_splits)

lemma fetch_fresh_inv:
  assumes "cache_inv st" and "fetch_fresh st now url out = (r, st', tr)"
  shows "cache_inv st'"
  using fetch_fresh_state[OF assms(2)] try_fetch_inv[OF assms(1)] by blast

lemma fetch_with_cache_inv:
  assumes "cache_inv st" and "fetch_with_cache st now url out = (r, st', tr)"
  shows "cache_inv st'"
  using assms
  by (auto simp: fetch_with_cache_def split: option.splits if_splits dest: fetch_fresh_inv)

lemma reachable_inv: "reachable st \<Longrightarrow> cache_inv st"
proof (induction rule: reachable.induct)
  case reachable_init
  show ?case by (simp add: init_state_def cache_inv_def)
next
  case (reachable_fetch st now url out r st' tr)
  then show ?case by (blast intro: fetch_with_cache_inv)
qed

lemma fetch_writes_both:
  assumes "fetch_with_cache st now url (Responds body) = (r, st', tr)"
    and "HttpGet url \<in> set tr"
  shows "(\<exists>d. cache st' url = Some d) \<and>
         cache_expiry st' url = Some (now + timedelta_seconds CACHE_TTL)"
  using assms
  by (auto simp: fetch_with_cache_def fetch_fresh_def try_fetch_def Let_def
      split: option.splits if_splits prod.splits sum.splits)

text \<open>
  C9. In every state reached from the start by calls of \<^verbatim>\<open>fetch_with_cache\<close>, each key of
  \<^verbatim>\<open>cache\<close> is a key of \<^verbatim>\<open>cache_expiry\<close>, so the lookup \<^verbatim>\<open>cache_expiry[url]\<close> of the
  freshness check finds a value for every cached URL and the call does not end in the
  \<^verbatim>\<open>KeyError\<close> of that lookup; and a call that went to the network and got a body has
  written both maps at that URL.
\<close>

theorem cache_keys_have_expiry:
  assumes "reachable st"
  shows "dom (cache st) \<subseteq> dom (cache_expiry st) \<and>
         (\<forall>url d. cache st url = Some d \<longrightarrow> (\<exists>e. cache_expiry st url = Some e)) \<and>
         (\<forall>now url out. fetch_with_cache st now url out \<noteq> (Inl KeyError, st, [])) \<and>
         (\<forall>now url body r st' tr.
            fetch_with_cache st now url (Responds body) = (r, st', tr) \<longrightarrow>
            HttpGet url \<in> set tr \<longrightarrow>
            (\<exists>d. cache st' url = Some d) \<and>
            cache_expiry st' url = Some (now + timedelta_seconds CACHE_TTL))"
proof -
  have inv: "dom (cache st) \<subseteq> dom (cache_expiry st)"
    using reachable_inv[OF assms] by (simp add: cache_inv_def)
  then have look: "\<forall>url d. cache st url = Some d \<longrightarrow> (\<exists>e. cache_expiry st url = Some e)"
    by (auto simp: subset_iff dom_def)
  have "fetch_with_cache st now url out \<noteq> (Inl KeyError, st, [])" for now url out
    using look
    by (auto simp: fetch_with_cache_def fetch_fresh_def split: option.splits prod.splits sum.splits)
  with inv look fetch_writes_both show ?thesis by blast
qed

theorem cache_keys_have_expiry_witness:
  "reachable state_fetched \<and>
   cache state_fetched IPTV_CHANNELS_URL = Some (PList [PRef 0, PRef 1]) \<and>
   cache_expiry state_fetched IPTV_CHANNELS_URL = Some 600000000 \<and>
   dom (cache state_fetched) \<subseteq> dom (cache_expiry state_fetched)"
  using cache_keys_have_expiry[OF state_fetched_reachable] state_fetched_reachable
    state_fetched_cache(1,2)
  by simp

section \<open>Properties of the channel filter\<close>

lemma py_eq_PStr: "py_eq (PStr s) x \<longleftrightarrow> x = PStr s"
  by (cases x) auto

lemma py_in_iff: "py_in x xs \<longleftrightarrow> x \<in> PStr ` set xs"
  by (auto simp: py_in_def list_ex_iff py_eq_PStr)

lemma channel_record_cases:
  assumes "channel_record h c"
  obtains country langs cats where
    "py_get h c ''country'' (PStr []) = Inr country"
    "py_get h c ''languages'' (PList []) = Inr (PList langs)"
    "py_get h c ''categories'' (PList []) = Inr (PList cats)"
proof -
  from assms obtain langs cats where
    l: "py_get h c ''languages'' (PList []) = Inr (PList langs)"
    and c: "py_get h c ''categories'' (PList []) = Inr (PList cats)"
    by (auto simp: channel_record_def split: sum.splits pyval.splits)
  from l have "(\<exists>kvs. c = PDict kvs) \<or> (\<exists>a. c = PRef a)"
    by (cases c) auto
  then show ?thesis using l c that by (cases c) auto
qed

lemma channel_matches_record:
  assumes "channel_record h c"
  shows "channel_matches pol h c = Inr (spec_includes pol h c)"
proof -
  from assms obtain country langs cats where
    g: "py_get h c ''country'' (PStr []) = Inr country"
       "py_get h c ''languages'' (PList []) = Inr (PList langs)"
       "py_get h c ''categories'' (PList []) = Inr (PList cats)"
    by (rule channel_record_cases)
  have "channel_matches pol h c =
          Inr ((INCLUDED_COUNTRIES pol = [] \<or> country \<in> PStr ` set (INCLUDED_COUNTRIES pol)) \<and>
               (\<exists>l\<in>set langs. l \<in> PStr ` set (INCLUDED_LANGUAGES pol)) \<and>
               \<not> (\<exists>x\<in>set cats. x \<in> PStr ` set (EXCLUDED_CATEGORIES pol)))"
    by (simp add: channel_matches_def g Let_def list_ex_iff py_in_iff)
  also have "\<dots> = Inr (spec_includes pol h c)"
    using g by (auto simp: spec_includes_def country_of_def languages_of_def categories_of_def)
  finally show ?thesis .
qed

lemma filter_loop_records:
  assumes "\<forall>c\<in>set cs. channel_record h c"
  shows "filter_loop pol h cs acc = Inr (acc @ filter (spec_includes pol h) cs)"
  using assms
  by (induction cs arbitrary: acc) (simp_all add: channel_matches_record)

lemma print_channel_record: "channel_record h c \<Longrightarrow> print_channel h c = Inr ()"
  by (erule channel_record_cases, cases c) (auto simp: print_channel_def)

lemma print_each_records: "\<forall>c\<in>set cs. channel_record h c \<Longrightarrow> print_each h cs = Inr ()"
  by (induction cs) (simp_all add: print_channel_record)

lemma print_sample_records:
  assumes "\<forall>c\<in>set cs. channel_record h c"
  shows "print_sample h (PList cs) = Inr ()"
proof -
  have "\<forall>c\<in>set (take 5 cs). channel_record h c"
    using assms by (meson in_set_takeD)
  then show ?thesis by (simp add: print_sample_def print_each_records)
qed

lemma filter_channels_records:
  assumes "\<forall>c\<in>set cs. channel_record h c"
  shows "filter_channels pol h (PList cs) = Inr (filter (spec_includes pol h) cs)"
  using assms by (simp add: filter_channels_def print_sample_records filter_loop_records)

text \<open>
  C1. For every policy and every list of channel records, \<^verbatim>\<open>filter_channels\<close> returns the
  channels of the list, in their order, that satisfy the condition of the specification:
  a channel is in the output if and only if it is in the input and (the list of included
  countries is empty or its country is in it) and one of its languages is an included
  language and none of its categories is an excluded one.
\<close>

theorem filter_channels_correct:
  assumes "\<forall>c\<in>set cs. channel_record h c"
  shows "\<exists>out. filter_channels pol h (PList cs) = Inr out \<and>
           out = filter (spec_includes pol h) cs \<and>
           (\<forall>c. c \<in> set out \<longleftrightarrow>
              c \<in> set cs \<and>
              (INCLUDED_COUNTRIES pol = [] \<or>
               country_of h c \<in> PStr ` set (INCLUDED_COUNTRIES pol)) \<and>
              set (languages_of h c) \<inter> PStr ` set (INCLUDED_LANGUAGES pol) \<noteq> {} \<and>
              set (categories_of h c) \<inter> PStr ` set (EXCLUDED_CATEGORIES pol) = {})"
  using filter_channels_records[OF assms, of pol]
  by (auto simp: spec_includes_def)

theorem filter_channels_correct_witness:
  "channel_record two_channels (PRef 0) \<and> channel_record two_channels (PRef 1) \<and>
   country_of two_channels (PRef 0) = PStr ''US'' \<and>
   languages_of two_channels (PRef 0) = [PStr ''eng''] \<and>
   languages_of two_channels (PRef 1) = [PStr ''jpn''] \<and>
   filter_channels source_policy two_channels (PList [PRef 0, PRef 1]) = Inr [PRef 0]"
proof -
  have r: "\<forall>c\<in>set [PRef 0, PRef 1]. channel_record two_channels c"
    by (simp add: channel_record_def scenario_defs)
  have v: "country_of two_channels (PRef 0) = PStr ''US''"
    "languages_of two_channels (PRef 0) = [PStr ''eng'']"
    "languages_of two_channels (PRef 1) = [PStr ''jpn'']"
    "categories_of two_channels (PRef 0) = []"
    by (simp_all add: country_of_def languages_of_def categories_of_def scenario_defs)
  have p: "spec_includes source_policy two_channels (PRef 0)"
    "\<not> spec_includes source_policy two_channels (PRef 1)"
    by (simp_all add: spec_includes_def source_policy_def v del: One_nat_def)
  from filter_channels_correct[OF r, of source_policy] r v p show ?thesis by simp
qed

lemma channel_matches_country:
  assumes "channel_matches pol h c = Inr True" and "INCLUDED_COUNTRIES pol \<noteq> []"
  shows "\<exists>v. py_get h c ''country'' (PStr []) = Inr v \<and> v \<in> PStr ` set (INCLUDED_COUNTRIES pol)"
  using assms
  by (auto simp: channel_matches_def Let_def py_in_iff split: sum.splits)

lemma filter_loop_set:
  assumes "filter_loop pol h cs acc = Inr out" and "c \<in> set out"
  shows "c \<in> set acc \<or> channel_matches pol h c = Inr True"
  using assms
proof (induction cs arbitrary: acc)
  case Nil
  then show ?case by simp
next
  case (Cons a cs)
  from Cons.prems(1) obtain ok where m: "channel_matches pol h a = Inr ok"
    and l: "filter_loop pol h cs (if ok then acc @ [a] else acc) = Inr out"
    by (auto split: sum.splits)
  from Cons.IH[OF l Cons.prems(2)] m show ?case
    by (cases ok) auto
qed

lemma py_get_missing:
  assumes "\<not> has_key h c k" and "py_get h c k d = Inr v"
  shows "v = d"
  using assms by (cases c) auto

text \<open>
  C10. Whenever the list of included countries is non-empty (the empty string, as which
  a missing country is read, not being a member of it), a channel that has no
  \<^verbatim>\<open>country\<close> field is in no output of the filter, whatever its languages and
  categories; and the filter applied to such a channel record alone returns the empty
  list.
\<close>

theorem missing_country_excluded:
  assumes "INCLUDED_COUNTRIES pol \<noteq> []" and "[] \<notin> set (INCLUDED_COUNTRIES pol)"
    and "\<not> has_key h c ''country''"
  shows "(\<forall>channels out. filter_channels pol h channels = Inr out \<longrightarrow> c \<notin> set out) \<and>
         (channel_record h c \<longrightarrow> filter_channels pol h (PList [c]) = Inr [])"
proof (intro conjI allI impI)
  fix channels out
  assume f: "filter_channels pol h channels = Inr out"
  show "c \<notin> set out"
  proof
    assume "c \<in> set out"
    moreover from f obtain cs where "filter_loop pol h cs [] = Inr out"
      by (auto simp: filter_channels_def split: sum.splits)
    ultimately have "channel_matches pol h c = Inr True"
      using filter_loop_set by fastforce
    then obtain v where "py_get h c ''country'' (PStr []) = Inr v"
      and "v \<in> PStr ` set (INCLUDED_COUNTRIES pol)"
      using channel_matches_country assms(1) by blast
    with py_get_missing[OF assms(3)] assms(2) show False by auto
  qed
next
  assume r: "channel_record h c"
  have "country_of h c = PStr []"
    using assms(3) by (cases c) (auto simp: country_of_def)
  then have "\<not> spec_includes pol h c"
    using assms(1,2) by (auto simp: spec_includes_def)
  then show "filter_channels pol h (PList [c]) = Inr []"
    using filter_channels_records[of "[c]" h pol] r by simp
qed

theorem missing_country_excluded_witness:
  "INCLUDED_COUNTRIES policy_us \<noteq> [] \<and> [] \<notin> set (INCLUDED_COUNTRIES policy_us) \<and>
   \<not> has_key no_country (PRef 0) ''country'' \<and> channel_record no_country (PRef 0) \<and>
   filter_channels policy_us no_country (PList [PRef 0]) = Inr []"
proof -
  have a: "INCLUDED_COUNTRIES policy_us \<noteq> []" by (simp add: policy_us_def)
  have b: "[] \<notin> set (INCLUDED_COUNTRIES policy_us)" by (simp add: policy_us_def)
  have c: "\<not> has_key no_country (PRef 0) ''country''" by (simp add: no_country_def)
  have d: "channel_record no_country (PRef 0)" by (simp add: channel_record_def no_country_def)
  from missing_country_excluded[OF a b c] a b c d show ?thesis by simp
qed

section \<open>Properties of the pipeline and of the scheduled task\<close>

lemma try_fetch_events:
  "try_fetch st now url out = (r, st', tr) \<Longrightarrow> ev \<in> set tr \<Longrightarrow> event_url ev = Some url"
  by (auto simp: try_fetch_def Let_def split: http.splits prod.splits sum.splits)

lemma fetch_fresh_events:
  "fetch_fresh st now url out = (r, st', tr) \<Longrightarrow> ev \<in> set tr \<Longrightarrow> event_url ev = Some url"
  by (auto simp: fetch_fresh_def split: prod.splits sum.splits if_splits dest: try_fetch_events)

lemma fetch_with_cache_events:
  "fetch_with_cache st now url out = (r, st', tr) \<Longrightarrow> ev \<in> set tr \<Longrightarrow> event_url ev = Some url"
  by (auto simp: fetch_with_cache_def split: option.splits if_splits dest: fetch_fresh_events)

lemma urls_differ: "IPTV_CHANNELS_URL \<noteq> IPTV_STREAMS_URL"
  by (simp add: IPTV_CHANNELS_URL_def IPTV_STREAMS_URL_def)

text \<open>
  C7. When the call of \<^verbatim>\<open>fetch_with_cache\<close> for the channels returns a value that is false
  as a truth value, \<^verbatim>\<open>fetch_channels\<close> returns the empty list in the state that call left,
  and no event of the run is about the stream URL: the stream fetch is not attempted.
  When the channels are not empty and the call for the streams returns a value that is
  false, \<^verbatim>\<open>fetch_channels\<close> returns the empty list in the state the two calls left:
  nothing is filtered (a channel list the filter would raise on makes no difference) and
  nothing is joined (no record is written).
\<close>

theorem short_circuit:
  assumes "fetch_with_cache st (fst (env IPTV_CHANNELS_URL)) IPTV_CHANNELS_URL
             (snd (env IPTV_CHANNELS_URL)) = (Inr channels, st1, tr1)"
  shows "(\<not> py_truthy (heap st1) channels \<longrightarrow>
            fetch_channels pol st env = (Inr [], st1, tr1 @ [NoChannelsFetched]) \<and>
            (\<forall>ev \<in> set (tr1 @ [NoChannelsFetched]). event_url ev \<noteq> Some IPTV_STREAMS_URL)) \<and>
         (py_truthy (heap st1) channels \<and>
          fetch_with_cache st1 (fst (env IPTV_STREAMS_URL)) IPTV_STREAMS_URL
              (snd (env IPTV_STREAMS_URL)) = (Inr streams, st2, tr2) \<and>
          \<not> py_truthy (heap st2) streams \<longrightarrow>
            fetch_channels pol st env = (Inr [], st2, tr1 @ tr2 @ [NoStreamsFetched]))"
  using assms urls_differ
  by (auto simp: fetch_channels_def dest: fetch_with_cache_events)

theorem short_circuit_witness:
  "fetch_channels source_policy init_state env_down =
     (Inr [], init_state,
      [FetchingFresh IPTV_CHANNELS_URL, HttpGet IPTV_CHANNELS_URL,
       ErrorFetching IPTV_CHANNELS_URL ConnectionError, NoChannelsFetched]) \<and>
   fetch_channels source_policy init_state env_streams_down =
     (Inr [], state_channels,
      [FetchingFresh IPTV_CHANNELS_URL, HttpGet IPTV_CHANNELS_URL, Fetched 2 IPTV_CHANNELS_URL,
       FetchingFresh IPTV_STREAMS_URL, HttpGet IPTV_STREAMS_URL,
       ErrorFetching IPTV_STREAMS_URL ConnectionError, NoStreamsFetched])"
proof -
  have c1: "fetch_with_cache init_state (fst (env_down IPTV_CHANNELS_URL)) IPTV_CHANNELS_URL
              (snd (env_down IPTV_CHANNELS_URL)) =
            (Inr PNone, init_state,
             [FetchingFresh IPTV_CHANNELS_URL, HttpGet IPTV_CHANNELS_URL,
              ErrorFetching IPTV_CHANNELS_URL ConnectionError])"
    by (simp add: scenario_defs program_defs)
  have e1: "\<not> py_truthy (heap init_state) PNone" by simp
  have c2: "fetch_with_cache init_state (fst (env_streams_down IPTV_CHANNELS_URL))
              IPTV_CHANNELS_URL (snd (env_streams_down IPTV_CHANNELS_URL)) =
            (Inr (PList [PRef 0, PRef 1]), state_channels,
             [FetchingFresh IPTV_CHANNELS_URL, HttpGet IPTV_CHANNELS_URL,
              Fetched 2 IPTV_CHANNELS_URL])"
    by (simp add: scenario_defs program_defs)
  have t2: "py_truthy (heap state_channels) (PList [PRef 0, PRef 1])" by simp
  have s2: "fetch_with_cache state_channels (fst (env_streams_down IPTV_STREAMS_URL))
              IPTV_STREAMS_URL (snd (env_streams_down IPTV_STREAMS_URL)) =
            (Inr PNone, state_channels,
             [FetchingFresh IPTV_STREAMS_URL, HttpGet IPTV_STREAMS_URL,
              ErrorFetching IPTV_STREAMS_URL ConnectionError])"
    by (simp add: scenario_defs program_defs)
  have e2: "\<not> py_truthy (heap state_channels) PNone" by simp
  have r1: "fetch_channels source_policy init_state env_down =
              (Inr [], init_state,
               [FetchingFresh IPTV_CHANNELS_URL, HttpGet IPTV_CHANNELS_URL,
                ErrorFetching IPTV_CHANNELS_URL ConnectionError] @ [NoChannelsFetched])"
    using short_circuit[where st = init_state and env = env_down and pol = source_policy,
        OF c1] e1 by blast
  have r2: "fetch_channels source_policy init_state env_streams_down =
              (Inr [], state_channels,
               [FetchingFresh IPTV_CHANNELS_URL, HttpGet IPTV_CHANNELS_URL,
                Fetched 2 IPTV_CHANNELS_URL] @
               [FetchingFresh IPTV_STREAMS_URL, HttpGet IPTV_STREAMS_URL,
                ErrorFetching IPTV_STREAMS_URL ConnectionError] @ [NoStreamsFetched])"
    using short_circuit[where st = init_state and env = env_streams_down
        and pol = source_policy, OF c2] t2 s2 e2 by blast
  from r1 r2 show ?thesis by simp
qed

subsection \<open>The exceptions of a run\<close>

text \<open>
  Every exception that the operations of the program raise themselves is of the class
  \<^verbatim>\<open>Exception\<close>; any other exception of a run comes from the network call.
\<close>

lemma py_len_exn: "py_len h v = Inl e \<Longrightarrow> is_Exception e"
  by (cases v) auto

lemma py_iter_exn: "py_iter h v = Inl e \<Longrightarrow> is_Exception e"
  by (cases v) auto

lemma py_first5_exn: "py_first5 h v = Inl e \<Longrightarrow> is_Exception e"
  by (cases v) auto

lemma py_get_exn: "py_get h v k d = Inl e \<Longrightarrow> is_Exception e"
  by (cases v) auto

lemma py_setitem_exn: "py_setitem h c k v = Inl e \<Longrightarrow> is_Exception e"
  by (cases c) auto

lemma print_channel_exn: "print_channel h c = Inl e \<Longrightarrow> is_Exception e"
  by (auto simp: print_channel_def split: sum.splits dest: py_get_exn)

lemma print_each_exn: "print_each h cs = Inl e \<Longrightarrow> is_Exception e"
  by (induction cs) (auto split: sum.splits dest: print_channel_exn)

lemma print_sample_exn: "print_sample h v = Inl e \<Longrightarrow> is_Exception e"
  by (auto simp: print_sample_def split: sum.splits dest: py_first5_exn print_each_exn)

lemma channel_matches_exn: "channel_matches pol h c = Inl e \<Longrightarrow> is_Exception e"
  by (auto simp: channel_matches_def Let_def split: sum.splits dest: py_get_exn py_iter_exn)

lemma filter_loop_exn: "filter_loop pol h cs acc = Inl e \<Longrightarrow> is_Exception e"
  by (induction cs arbitrary: acc) (auto split: sum.splits dest: channel_matches_exn)

lemma filter_channels_exn: "filter_channels pol h v = Inl e \<Longrightarrow> is_Exception e"
  by (auto simp: filter_channels_def split: sum.splits
      dest: py_len_exn print_sample_exn py_iter_exn filter_loop_exn)

lemma collect_streams_exn: "collect_streams h c ss = Inl e \<Longrightarrow> is_Exception e"
  by (induction ss) (auto split: sum.splits dest: py_get_exn)

lemma match_loop_exn: "match_loop h cs streams = (Inl e, h') \<Longrightarrow> is_Exception e"
proof (induction cs arbitrary: h)
  case Nil
  then show ?case by simp
next
  case (Cons c cs)
  show ?case
  proof (cases "py_iter h streams")
    case (Inl x)
    with Cons.prems show ?thesis by (auto dest: py_iter_exn)
  next
    case (Inr ss)
    show ?thesis
    proof (cases "collect_streams h c ss")
      case (Inl x)
      with Cons.prems Inr show ?thesis by (auto dest: collect_streams_exn)
    next
      case m: (Inr ms)
      show ?thesis
      proof (cases "ms = []")
        case True
        with Cons.prems Inr m have "match_loop h cs streams = (Inl e, h')"
          by (auto split: prod.splits sum.splits)
        then show ?thesis by (rule Cons.IH)
      next
        case False
        show ?thesis
        proof (cases "py_setitem h c ''streams'' (PList ms)")
          case (Inl x)
          with Cons.prems Inr m False show ?thesis by (auto dest: py_setitem_exn)
        next
          case s: (Inr p)
          obtain c1 h1 where p: "p = (c1, h1)" by (cases p)
          with Cons.prems Inr m False s have "match_loop h1 cs streams = (Inl e, h')"
            by (auto split: prod.splits sum.splits)
          then show ?thesis by (rule Cons.IH)
        qed
      qed
    qed
  qed
qed

lemma try_fetch_exn:
  "try_fetch st now url out = (Inl e, st', tr) \<Longrightarrow> is_Exception e \<or> out = Raises e"
  by (auto simp: try_fetch_def Let_def split: http.splits prod.splits sum.splits
      dest: py_len_exn)

lemma fetch_fresh_exn:
  "fetch_fresh st now url out = (Inl e, st', tr) \<Longrightarrow> is_Exception e \<or> out = Raises e"
  by (auto simp: fetch_fresh_def split: prod.splits sum.splits if_splits dest: try_fetch_exn)

lemma fetch_with_cache_exn:
  "fetch_with_cache st now url out = (Inl e, st', tr) \<Longrightarrow> is_Exception e \<or> out = Raises e"
  by (auto simp: fetch_with_cache_def split: option.splits if_splits dest: fetch_fresh_exn)

lemma fetch_channels_exn:
  assumes "fetch_channels pol st env = (Inl e, st', tr)"
  shows "is_Exception e \<or> (\<exists>u. snd (env u) = Raises e)"
  using assms
  by (auto simp: fetch_channels_def match_streams_to_channels_def
      split: prod.splits sum.splits if_splits
      dest: fetch_with_cache_exn filter_channels_exn print_sample_exn match_loop_exn)

lemma refresh_data_propagates:
  "fetch_channels pol st env = (Inl e, st', tr) \<Longrightarrow> \<not> is_Exception e \<Longrightarrow>
     refresh_data pol st env = (Inl e, st', tr)"
  by (simp add: refresh_data_def)

text \<open>
  C8. In an environment whose network calls raise nothing but exceptions of the class
  \<^verbatim>\<open>Exception\<close> (a job of the scheduler runs in a thread of its own, where no
  \<^verbatim>\<open>KeyboardInterrupt\<close> arrives), \<^verbatim>\<open>refresh_data\<close> returns normally from every state:
  whatever \<^verbatim>\<open>fetch_channels\<close> raises, the task answers it with the printed error line
  and raises nothing to the scheduler.
\<close>

theorem refresh_data_never_raises:
  assumes "\<forall>u e. snd (env u) = Raises e \<longrightarrow> is_Exception e"
  shows "fst (refresh_data pol st env) = Inr () \<and>
         (\<forall>e st' tr. fetch_channels pol st env = (Inl e, st', tr) \<longrightarrow>
            refresh_data pol st env = (Inr (), st', tr @ [RefreshError e]))"
proof -
  have caught: "is_Exception e" if "fetch_channels pol st env = (Inl e, st', tr)" for e st' tr
    using fetch_channels_exn[OF that] assms by blast
  obtain r st' tr where f: "fetch_channels pol st env = (r, st', tr)"
    by (cases "fetch_channels pol st env") auto
  show ?thesis
  proof (cases r)
    case (Inl e)
    with f caught show ?thesis by (auto simp: refresh_data_def)
  next
    case (Inr cs)
    with f show ?thesis by (simp add: refresh_data_def)
  qed
qed

theorem refresh_data_never_raises_witness:
  "fst (fetch_channels source_policy init_state env_null) = Inl TypeError \<and>
   fst (refresh_data source_policy init_state env_null) = Inr () \<and>
   snd (snd (refresh_data source_policy init_state env_null)) =
     [FetchingFresh IPTV_CHANNELS_URL, HttpGet IPTV_CHANNELS_URL, RefreshError TypeError]"
proof -
  obtain r st' tr where f: "fetch_channels source_policy init_state env_null = (r, st', tr)"
    by (cases "fetch_channels source_policy init_state env_null") auto
  have "fst (fetch_channels source_policy init_state env_null) = Inl TypeError"
    and "snd (snd (fetch_channels source_policy init_state env_null)) =
           [FetchingFresh IPTV_CHANNELS_URL, HttpGet IPTV_CHANNELS_URL]"
    by (simp_all add: scenario_defs program_defs)
  with f have r: "r = Inl TypeError"
    and t: "tr = [FetchingFresh IPTV_CHANNELS_URL, HttpGet IPTV_CHANNELS_URL]"
    by simp_all
  have e: "\<forall>u e. snd (env_null u) = Raises e \<longrightarrow> is_Exception e"
    by (simp add: env_null_def)
  from refresh_data_never_raises[OF e, of source_policy init_state] f r
  have "refresh_data source_policy init_state env_null =
          (Inr (), st', tr @ [RefreshError TypeError])"
    by blast
  with f r t show ?thesis by simp
qed

section \<open>Properties of the stream joiner\<close>

lemma alloc_records_frame:
  "alloc_records xs h n = (ys, h', n') \<Longrightarrow> n \<le> n' \<and> (\<forall>a<n. h' a = h a)"
proof (induction xs arbitrary: h n ys h' n')
  case Nil
  then show ?case by simp
next
  case (Cons x xs)
  show ?case
  proof (cases "\<exists>kvs. x = PDict kvs")
    case True
    then obtain kvs where x: "x = PDict kvs" by blast
    with Cons.prems obtain ys0 where
      "alloc_records xs (h(n := kvs)) (Suc n) = (ys0, h', n')"
      by (auto split: prod.splits)
    from Cons.IH[OF this] have "Suc n \<le> n'" and "\<forall>a<Suc n. h' a = (h(n := kvs)) a"
      by blast+
    then show ?thesis by auto
  next
    case False
    then have "alloc_records (x # xs) h n =
                 (case alloc_records xs h n of (ys, h', n') \<Rightarrow> (x # ys, h', n'))"
      by (cases x) auto
    with Cons.prems obtain ys0 where "alloc_records xs h n = (ys0, h', n')"
      by (auto split: prod.splits)
    from Cons.IH[OF this] show ?thesis .
  qed
qed

lemma response_json_frame:
  "response_json v h n = (d, h', n') \<Longrightarrow> n \<le> n' \<and> (\<forall>a<n. h' a = h a)"
  by (cases v) (auto split: prod.splits dest: alloc_records_frame)

lemma try_fetch_frame:
  "try_fetch st now url out = (r, st', tr) \<Longrightarrow>
     next_addr st \<le> next_addr st' \<and> (\<forall>a<next_addr st. heap st' a = heap st a)"
  by (auto simp: try_fetch_def Let_def split: http.splits prod.splits sum.splits
      dest: response_json_frame)

lemma fetch_fresh_frame:
  "fetch_fresh st now url out = (r, st', tr) \<Longrightarrow>
     next_addr st \<le> next_addr st' \<and> (\<forall>a<next_addr st. heap st' a = heap st a)"
  by (auto simp: fetch_fresh_def split: prod.splits sum.splits if_splits dest: try_fetch_frame)

lemma fetch_with_cache_frame:
  "fetch_with_cache st now url out = (r, st', tr) \<Longrightarrow>
     next_addr st \<le> next_addr st' \<and> (\<forall>a<next_addr st. heap st' a = heap st a)"
  by (auto simp: fetch_with_cache_def split: option.splits if_splits dest: fetch_fresh_frame)

lemma py_setitem_frame:
  assumes "py_setitem h c k v = Inr (c', h')"
  shows "(\<forall>a. PRef a \<noteq> c \<longrightarrow> h' a = h a) \<and>
         (\<forall>a k'. k' \<noteq> k \<longrightarrow> map_of (h' a) k' = map_of (h a) k')"
proof (cases c)
  case (PRef b)
  with assms have "h' = h(b := AList.update k v (h b))" by simp
  then show ?thesis using PRef by (simp add: update_conv')
next
  case (PDict kvs)
  with assms show ?thesis by simp
qed (use assms in simp_all)

lemma match_loop_frame:
  "match_loop h cs streams = (r, h') \<Longrightarrow>
     (\<forall>a. PRef a \<notin> set cs \<longrightarrow> h' a = h a) \<and>
     (\<forall>a k. k \<noteq> ''streams'' \<longrightarrow> map_of (h' a) k = map_of (h a) k)"
proof (induction cs arbitrary: h r h')
  case Nil
  then show ?case by simp
next
  case (Cons c cs)
  show ?case
  proof (cases "py_iter h streams")
    case (Inl e)
    with Cons.prems show ?thesis by simp
  next
    case (Inr ss)
    show ?thesis
    proof (cases "collect_streams h c ss")
      case (Inl e)
      with Cons.prems Inr show ?thesis by simp
    next
      case m: (Inr ms)
      show ?thesis
      proof (cases "ms = []")
        case True
        with Cons.prems Inr m obtain r0 where "match_loop h cs streams = (r0, h')"
          by (auto split: prod.splits sum.splits)
        from Cons.IH[OF this] show ?thesis by simp
      next
        case False
        show ?thesis
        proof (cases "py_setitem h c ''streams'' (PList ms)")
          case (Inl e)
          with Cons.prems Inr m False show ?thesis by simp
        next
          case s: (Inr p)
          obtain c1 h1 where p: "p = (c1, h1)" by (cases p)
          with Cons.prems Inr m False s obtain r0 where "match_loop h1 cs streams = (r0, h')"
            by (auto split: prod.splits sum.splits)
          from Cons.IH[OF this] py_setitem_frame[OF s[unfolded p]] show ?thesis by simp
        qed
      qed
    qed
  qed
qed

lemma fetch_channels_state:
  assumes "fetch_channels pol st env = (r, st', tr)"
  shows "\<exists>r1 st1 tr1.
           fetch_with_cache st (fst (env IPTV_CHANNELS_URL)) IPTV_CHANNELS_URL
             (snd (env IPTV_CHANNELS_URL)) = (r1, st1, tr1) \<and>
           (st' = st1 \<or>
            (\<exists>r2 st2 tr2.
               fetch_with_cache st1 (fst (env IPTV_STREAMS_URL)) IPTV_STREAMS_URL
                 (snd (env IPTV_STREAMS_URL)) = (r2, st2, tr2) \<and>
               (st' = st2 \<or>
                (\<exists>cs streams h'. match_loop (heap st2) cs streams = (r, h') \<and>
                                  st' = st2\<lparr>heap := h'\<rparr>))))"
  using assms
  by (auto simp: fetch_channels_def match_streams_to_channels_def
      split: prod.splits sum.splits if_splits)

lemma fetch_channels_frame:
  assumes run: "fetch_channels pol st env = (r, st', tr)"
    and a: "a < next_addr st" and k: "k \<noteq> ''streams''"
  shows "map_of (heap st' a) k = map_of (heap st a) k"
proof -
  from fetch_channels_state[OF run] obtain r1 st1 tr1 where
    f1: "fetch_with_cache st (fst (env IPTV_CHANNELS_URL)) IPTV_CHANNELS_URL
           (snd (env IPTV_CHANNELS_URL)) = (r1, st1, tr1)"
    and rest: "st' = st1 \<or>
            (\<exists>r2 st2 tr2.
               fetch_with_cache st1 (fst (env IPTV_STREAMS_URL)) IPTV_STREAMS_URL
                 (snd (env IPTV_STREAMS_URL)) = (r2, st2, tr2) \<and>
               (st' = st2 \<or>
                (\<exists>cs streams h'. match_loop (heap st2) cs streams = (r, h') \<and>
                                  st' = st2\<lparr>heap := h'\<rparr>)))"
    by blast
  from fetch_with_cache_frame[OF f1] a
  have h1: "heap st1 a = heap st a" and a1: "a < next_addr st1" by auto
  from rest show ?thesis
  proof
    assume "st' = st1"
    with h1 show ?thesis by simp
  next
    assume "\<exists>r2 st2 tr2.
               fetch_with_cache st1 (fst (env IPTV_STREAMS_URL)) IPTV_STREAMS_URL
                 (snd (env IPTV_STREAMS_URL)) = (r2, st2, tr2) \<and>
               (st' = st2 \<or>
                (\<exists>cs streams h'. match_loop (heap st2) cs streams = (r, h') \<and>
                                  st' = st2\<lparr>heap := h'\<rparr>))"
    then obtain r2 st2 tr2 where
      f2: "fetch_with_cache st1 (fst (env IPTV_STREAMS_URL)) IPTV_STREAMS_URL
             (snd (env IPTV_STREAMS_URL)) = (r2, st2, tr2)"
      and last: "st' = st2 \<or>
                (\<exists>cs streams h'. match_loop (heap st2) cs streams = (r, h') \<and>
                                  st' = st2\<lparr>heap := h'\<rparr>)"
      by blast
    from fetch_with_cache_frame[OF f2] a1 h1 have h2: "heap st2 a = heap st a" by auto
    from last show ?thesis
    proof
      assume "st' = st2"
      with h2 show ?thesis by simp
    next
      assume "\<exists>cs streams h'. match_loop (heap st2) cs streams = (r, h') \<and>
                               st' = st2\<lparr>heap := h'\<rparr>"
      then obtain cs streams h' where m: "match_loop (heap st2) cs streams = (r, h')"
        and s: "st' = st2\<lparr>heap := h'\<rparr>" by blast
      from match_loop_frame[OF m] k have "map_of (h' a) k = map_of (heap st2 a) k" by blast
      with s h2 show ?thesis by simp
    qed
  qed
qed

text \<open>
  What the joiner does for one stored channel and a list of stream dicts: it collects,
  in the order of the list, the streams whose \<^verbatim>\<open>channel\<close> equals the channel's \<^verbatim>\<open>id\<close>;
  if there is one, it writes the list into the \<^verbatim>\<open>streams\<close> field of the stored channel,
  and if there is none, it leaves the store as it is.
\<close>

lemma collect_streams_dicts:
  assumes "is_dict c" and "\<forall>s\<in>set ss. is_dict s"
  shows "collect_streams h c ss =
           Inr (filter (\<lambda>s. py_eq (field_of h s ''channel'') (field_of h c ''id'')) ss)"
  using assms(2)
proof (induction ss)
  case Nil
  show ?case by simp
next
  case (Cons s ss)
  from Cons.prems have "is_dict s" by simp
  then have "py_get h s ''channel'' PNone = Inr (field_of h s ''channel'')"
    by (cases s) (simp_all add: field_of_def)
  moreover from assms(1) have "py_get h c ''id'' PNone = Inr (field_of h c ''id'')"
    by (cases c) (simp_all add: field_of_def)
  ultimately show ?case using Cons by simp
qed

lemma join_one_channel:
  assumes "\<forall>s\<in>set ss. is_dict s"
  shows "match_streams_to_channels h [PRef a] (PList ss) =
           (Inr [PRef a],
            (let m = filter (\<lambda>s. py_eq (field_of h s ''channel'') (field_of h (PRef a) ''id'')) ss
             in if m \<noteq> [] then h(a := AList.update ''streams'' (PList m) (h a)) else h))"
  using collect_streams_dicts[OF _ assms, of "PRef a" h]
  by (simp add: match_streams_to_channels_def Let_def)












text \<open>
  C4. The claim has the streams of a channel after the join be exactly the streams of
  the list that belong to it, and the field be absent or empty when there is none. The
  code leaves a \<^verbatim>\<open>streams\<close> field that is already there untouched when no stream of the
  list belongs to the channel, and the channels it joins are the cached records, which
  keep the field from the run before. In the two runs below the first attaches the
  stream \<^verbatim>\<open>http://a\<close> to \<^verbatim>\<open>ch1\<close>. In the second the channel list is the cached one (the
  fetch failed) and the new stream list holds the single stream of \<^verbatim>\<open>ch3\<close>: no stream of
  it belongs to \<^verbatim>\<open>ch1\<close>, and the view still serves \<^verbatim>\<open>ch1\<close> with the stream \<^verbatim>\<open>http://a\<close>.
\<close>

theorem stale_streams_served:
  "fst (fetch_channels source_policy init_state env_first) = Inr [PRef 0] \<and>
   map_of (heap state_after_first 0) ''streams'' = Some (PList [PRef 2]) \<and>
   fst (fetch_channels source_policy state_after_first env_second) = Inr [PRef 0] \<and>
   cache state_after_second IPTV_STREAMS_URL = Some (PList [PRef 4]) \<and>
   heap state_after_second 4 = stream_b \<and>
   collect_streams (heap state_after_second) (PRef 0) [PRef 4] = Inr [] \<and>
   map_of (heap state_after_second 0) ''streams'' = Some (PList [PRef 2]) \<and>
   heap state_after_second 2 = stream_a"
proof -
  have v1: "fst (fetch_channels source_policy init_state env_first) = Inr [PRef 0]"
    by (simp add: scenario_defs program_defs)
  have s1: "map_of (heap state_after_first 0) ''streams'' = Some (PList [PRef 2])"
    by (simp add: scenario_defs program_defs)
  have v2: "fst (fetch_channels source_policy state_after_first env_second) = Inr [PRef 0]"
    by (simp add: scenario_defs program_defs)
  have c2: "cache state_after_second IPTV_STREAMS_URL = Some (PList [PRef 4])"
    by (simp add: scenario_defs program_defs)
  have h0: "heap state_after_second 0 = ch1 @ [(''streams'', PList [PRef 2])]"
    by (simp add: scenario_defs program_defs)
  have h2: "heap state_after_second 2 = stream_a"
    by (simp add: scenario_defs program_defs)
  have h4: "heap state_after_second 4 = stream_b"
    by (simp add: scenario_defs program_defs)
  have m: "collect_streams (heap state_after_second) (PRef 0) [PRef 4] = Inr []"
    by (simp add: h0 h4) (simp add: ch1_def stream_b_def)
  have s2: "map_of (heap state_after_second 0) ''streams'' = Some (PList [PRef 2])"
    by (simp add: h0) (simp add: ch1_def)
  from v1 s1 v2 c2 h4 m s2 h2 show ?thesis by blast
qed

end
